theory Spec2Isabelle
  imports Main
begin

section \<open>Domain records of package jira\<close>

text \<open>
  The structs of the package, one record each. Go field names repeat across structs
  (\<open>ID\<close>, \<open>Name\<close>), so every field carries its struct as a prefix. A Go pointer field
  (\<open>*User\<close>) is an option, \<open>nil\<close> being \<open>None\<close>. \<open>time.Time\<close> is the type variable
  \<open>'t\<close>: the package only stores what \<open>time.Parse\<close> returns.
\<close>

record Status =
  Status_ID :: string
  Status_Name :: string

record IssueType =
  IssueType_ID :: string
  IssueType_Name :: string

record Priority =
  Priority_ID :: string
  Priority_Name :: string

record User =
  User_AccountID :: string
  User_DisplayName :: string
  User_EmailAddress :: string

record Component =
  Component_ID :: string
  Component_Name :: string
  Component_Description :: string
  Component_Lead :: "User option"
  Component_Self :: string

record Project =
  Project_ID :: string
  Project_Key :: string
  Project_Name :: string

record 't Ticket =
  Ticket_ID :: string
  Ticket_Key :: string
  Ticket_Summary :: string
  Ticket_Description :: string
  Ticket_Status :: Status
  Ticket_IssueType :: IssueType
  Ticket_Priority :: Priority
  Ticket_Assignee :: "User option"
  Ticket_Reporter :: User
  Ticket_Created :: 't
  Ticket_Updated :: 't
  Ticket_Labels :: "string list"
  Ticket_Components :: "Component list"
  Ticket_Project :: Project

text \<open>
  What \<open>encoding/json\<close> stores in an \<open>interface{}\<close>: \<open>nil\<close>, \<open>bool\<close>, \<open>float64\<close>, \<open>string\<close>,
  \<open>[]interface{}\<close> and \<open>map[string]interface{}\<close>. No code of the package looks inside a
  number, so its payload is the type variable \<open>'n\<close>. A Go map is a partial function; a
  missing key reads as \<open>nil\<close>, like JSON \<open>null\<close>.
\<close>

datatype 'n json =
    JNull
  | JBool bool
  | JNumber 'n
  | JString string
  | JArray "'n json list"
  | JObject "string \<Rightarrow> 'n json option"

record 'n JiraResponse =
  Resp_ID :: string
  Resp_Key :: string
  Resp_Fields :: "string \<Rightarrow> 'n json option"

text \<open>Go errors: the cause, wrapped by \<open>fmt.Errorf(prefix + "%w", err)\<close> at each caller.\<close>

datatype tmpl_error =
    SyntaxError
  | CantEvaluateField string

datatype error =
    OSError string
  | TemplateError tmpl_error
  | XMLError string
  | Errorf string error

section \<open>parseTicket (pkg/jira/client.go)\<close>

text \<open>The zero values the struct literal \<open>&Ticket{ID: ..., Key: ...}\<close> leaves in place.\<close>

definition zeroStatus :: Status where
  "zeroStatus = \<lparr>Status_ID = [], Status_Name = []\<rparr>"

definition zeroIssueType :: IssueType where
  "zeroIssueType = \<lparr>IssueType_ID = [], IssueType_Name = []\<rparr>"

definition zeroPriority :: Priority where
  "zeroPriority = \<lparr>Priority_ID = [], Priority_Name = []\<rparr>"

definition zeroUser :: User where
  "zeroUser = \<lparr>User_AccountID = [], User_DisplayName = [], User_EmailAddress = []\<rparr>"

definition zeroProject :: Project where
  "zeroProject = \<lparr>Project_ID = [], Project_Key = [], Project_Name = []\<rparr>"

text \<open>The type assertions \<open>v.(string)\<close>, \<open>v.(map[string]interface{})\<close>, \<open>v.([]interface{})\<close>
  on the result of a map lookup, with their \<open>ok\<close> flag as the option.\<close>

fun assertString :: "'n json option \<Rightarrow> string option" where
  "assertString (Some (JString s)) = Some s"
| "assertString _ = None"

fun assertMap :: "'n json option \<Rightarrow> (string \<Rightarrow> 'n json option) option" where
  "assertMap (Some (JObject m)) = Some m"
| "assertMap _ = None"

fun assertSlice :: "'n json option \<Rightarrow> 'n json list option" where
  "assertSlice (Some (JArray xs)) = Some xs"
| "assertSlice _ = None"

definition getStringFromMap :: "(string \<Rightarrow> 'n json option) \<Rightarrow> string \<Rightarrow> string" where
  "getStringFromMap m key = (case assertString (m key) of Some val \<Rightarrow> val | None \<Rightarrow> [])"

definition parseUser :: "(string \<Rightarrow> 'n json option) \<Rightarrow> User" where
  "parseUser userField =
     \<lparr>User_AccountID = getStringFromMap userField ''accountId'',
      User_DisplayName = getStringFromMap userField ''displayName'',
      User_EmailAddress = getStringFromMap userField ''emailAddress''\<rparr>"

text \<open>The loop over \<open>labelsField\<close>: a string element is appended, any other is skipped.\<close>

primrec parseLabels :: "'n json list \<Rightarrow> string list \<Rightarrow> string list" where
  "parseLabels [] labels = labels"
| "parseLabels (label # rest) labels =
     parseLabels rest
       (case assertString (Some label) of Some labelStr \<Rightarrow> labels @ [labelStr] | None \<Rightarrow> labels)"

definition parseComponent :: "(string \<Rightarrow> 'n json option) \<Rightarrow> Component" where
  "parseComponent compMap =
     \<lparr>Component_ID = getStringFromMap compMap ''id'',
      Component_Name = getStringFromMap compMap ''name'',
      Component_Description = getStringFromMap compMap ''description'',
      Component_Lead =
        (case assertMap (compMap ''lead'') of
           Some leadField \<Rightarrow> Some (parseUser leadField)
         | None \<Rightarrow> None),
      Component_Self = getStringFromMap compMap ''self''\<rparr>"

primrec parseComponents :: "'n json list \<Rightarrow> Component list \<Rightarrow> Component list" where
  "parseComponents [] components = components"
| "parseComponents (compElem # rest) components =
     parseComponents rest
       (case assertMap (Some compElem) of
          Some compMap \<Rightarrow> components @ [parseComponent compMap]
        | None \<Rightarrow> components)"

definition timeLayout :: string where
  "timeLayout = ''2006-01-02T15:04:05.000-0700''"

text \<open>
  \<open>parseTicket zeroTime time_Parse resp\<close>. The two parameters stand for the standard
  library: the zero \<open>time.Time\<close> and \<open>time.Parse layout value\<close> (\<open>None\<close> when it returns an
  error). The result is the pair the Go function returns, the ticket and the error.
  \<open>assigneeField != nil\<close> and \<open>leadField != nil\<close> hold of every map the JSON decoder
  builds, so the model has no nil map.
\<close>

definition parseTicket ::
  "'t \<Rightarrow> (string \<Rightarrow> string \<Rightarrow> 't option) \<Rightarrow> 'n JiraResponse \<Rightarrow> 't Ticket \<times> error option" where
  "parseTicket zeroTime time_Parse resp =
    (let fields = Resp_Fields resp;
         ticket =
           \<lparr>Ticket_ID = Resp_ID resp, Ticket_Key = Resp_Key resp,
            Ticket_Summary = [], Ticket_Description = [],
            Ticket_Status = zeroStatus, Ticket_IssueType = zeroIssueType,
            Ticket_Priority = zeroPriority, Ticket_Assignee = None,
            Ticket_Reporter = zeroUser, Ticket_Created = zeroTime,
            Ticket_Updated = zeroTime, Ticket_Labels = [], Ticket_Components = [],
            Ticket_Project = zeroProject\<rparr>;
         ticket = (case assertString (fields ''summary'') of
             Some summary \<Rightarrow> ticket\<lparr>Ticket_Summary := summary\<rparr>
           | None \<Rightarrow> ticket);
         ticket = (case assertString (fields ''description'') of
             Some description \<Rightarrow> ticket\<lparr>Ticket_Description := description\<rparr>
           | None \<Rightarrow> ticket);
         ticket = (case assertMap (fields ''status'') of
             Some statusField \<Rightarrow>
               ticket\<lparr>Ticket_Status :=
                 \<lparr>Status_ID = getStringFromMap statusField ''id'',
                  Status_Name = getStringFromMap statusField ''name''\<rparr>\<rparr>
           | None \<Rightarrow> ticket);
         ticket = (case assertMap (fields ''issuetype'') of
             Some issueTypeField \<Rightarrow>
               ticket\<lparr>Ticket_IssueType :=
                 \<lparr>IssueType_ID = getStringFromMap issueTypeField ''id'',
                  IssueType_Name = getStringFromMap issueTypeField ''name''\<rparr>\<rparr>
           | None \<Rightarrow> ticket);
         ticket = (case assertMap (fields ''priority'') of
             Some priorityField \<Rightarrow>
               ticket\<lparr>Ticket_Priority :=
                 \<lparr>Priority_ID = getStringFromMap priorityField ''id'',
                  Priority_Name = getStringFromMap priorityField ''name''\<rparr>\<rparr>
           | None \<Rightarrow> ticket);
         ticket = (case assertMap (fields ''assignee'') of
             Some assigneeField \<Rightarrow> ticket\<lparr>Ticket_Assignee := Some (parseUser assigneeField)\<rparr>
           | None \<Rightarrow> ticket);
         ticket = (case assertMap (fields ''reporter'') of
             Some reporterField \<Rightarrow> ticket\<lparr>Ticket_Reporter := parseUser reporterField\<rparr>
           | None \<Rightarrow> ticket);
         ticket = (case assertString (fields ''created'') of
             Some created \<Rightarrow>
               (case time_Parse timeLayout created of
                  Some t \<Rightarrow> ticket\<lparr>Ticket_Created := t\<rparr>
                | None \<Rightarrow> ticket)
           | None \<Rightarrow> ticket);
         ticket = (case assertString (fields ''updated'') of
             Some updated \<Rightarrow>
               (case time_Parse timeLayout updated of
                  Some t \<Rightarrow> ticket\<lparr>Ticket_Updated := t\<rparr>
                | None \<Rightarrow> ticket)
           | None \<Rightarrow> ticket);
         ticket = (case assertSlice (fields ''labels'') of
             Some labelsField \<Rightarrow>
               ticket\<lparr>Ticket_Labels := parseLabels labelsField (Ticket_Labels ticket)\<rparr>
           | None \<Rightarrow> ticket);
         ticket = (case assertSlice (fields ''components'') of
             Some componentsField \<Rightarrow>
               ticket\<lparr>Ticket_Components :=
                 parseComponents componentsField (Ticket_Components ticket)\<rparr>
           | None \<Rightarrow> ticket);
         ticket = (case assertMap (fields ''project'') of
             Some projectField \<Rightarrow>
               ticket\<lparr>Ticket_Project :=
                 \<lparr>Project_ID = getStringFromMap projectField ''id'',
                  Project_Key = getStringFromMap projectField ''key'',
                  Project_Name = getStringFromMap projectField ''name''\<rparr>\<rparr>
           | None \<Rightarrow> ticket)
     in (ticket, None))"

section \<open>createTemplateData (pkg/prompt)\<close>

record TemplateData =
  Data_Summary :: string
  Data_Description :: string
  Data_Status :: string
  Data_IssueType :: string
  Data_Priority :: string
  Data_Components :: string
  Data_Labels :: string
  Data_Assignee :: string
  Data_Reporter :: string

text \<open>\<open>strings.Join elems sep\<close>: the elements with \<open>sep\<close> between neighbours.\<close>

fun strings_Join :: "string list \<Rightarrow> string \<Rightarrow> string" where
  "strings_Join [] sep = []"
| "strings_Join [x] sep = x"
| "strings_Join (x # y # ys) sep = x @ sep @ strings_Join (y # ys) sep"

text \<open>The loop that fills \<open>compNames\<close>; \<open>fmt.Sprintf("%s (Lead: %s)", a, b)\<close> is the
  concatenation written out.\<close>

primrec compNamesLoop :: "Component list \<Rightarrow> string list \<Rightarrow> string list" where
  "compNamesLoop [] compNames = compNames"
| "compNamesLoop (c # rest) compNames =
     compNamesLoop rest
       (case Component_Lead c of
          Some lead \<Rightarrow>
            compNames @ [Component_Name c @ '' (Lead: '' @ User_DisplayName lead @ '')'']
        | None \<Rightarrow> compNames @ [Component_Name c])"

definition createTemplateData :: "'t Ticket \<Rightarrow> TemplateData" where
  "createTemplateData ticket =
    (let data =
           \<lparr>Data_Summary = Ticket_Summary ticket,
            Data_Description = Ticket_Description ticket,
            Data_Status = Status_Name (Ticket_Status ticket),
            Data_IssueType = IssueType_Name (Ticket_IssueType ticket),
            Data_Priority = Priority_Name (Ticket_Priority ticket),
            Data_Components = [],
            Data_Labels = [],
            Data_Assignee = [],
            Data_Reporter = User_DisplayName (Ticket_Reporter ticket)\<rparr>;
         data = (case Ticket_Assignee ticket of
             Some assignee \<Rightarrow> data\<lparr>Data_Assignee := User_DisplayName assignee\<rparr>
           | None \<Rightarrow> data\<lparr>Data_Assignee := ''Unassigned''\<rparr>);
         data = (if length (Ticket_Components ticket) > 0
           then data\<lparr>Data_Components :=
                  strings_Join (compNamesLoop (Ticket_Components ticket) []) '', ''\<rparr>
           else data);
         data = (if length (Ticket_Labels ticket) > 0
           then data\<lparr>Data_Labels := strings_Join (Ticket_Labels ticket) '', ''\<rparr>
           else data)
     in data)"

section \<open>The subset of text/template the templates are written in\<close>

text \<open>
  \<open>text/template\<close> is the standard library's; the repository calls \<open>Parse\<close> and
  \<open>Execute\<close>. The model covers the templates built from literal text, the field action
  \<open>{{.Name}}\<close>, and the conditional \<open>{{if .Name}}\<close>, \<open>{{else}}\<close>, \<open>{{end}}\<close>, with blanks
  and tabs allowed inside the delimiters. On any other action (pipelines, \<open>else if\<close>,
  \<open>range\<close>, \<open>with\<close>, comments, trim markers, variables, literals) the model answers
  \<open>None\<close>: it says nothing about such a template. An error is reported only where the
  library reports one: an action that is never closed, an \<open>end\<close> or \<open>else\<close> with no
  open \<open>if\<close>, a second \<open>else\<close> in one \<open>if\<close>, an \<open>if\<close> that is never ended (all
  \<open>SyntaxError\<close>), and a field the data does not have (\<open>CantEvaluateField\<close>, raised
  when execution reaches it).
\<close>

datatype token = TText string | TField string | TIf string | TElse | TEnd

text \<open>\<open>IfNode f list elseList\<close>: the two branches of a conditional on the field \<open>f\<close>; a
  conditional without \<open>else\<close> has the empty \<open>elseList\<close>.\<close>

datatype Node = TextNode string | FieldNode string | IfNode string "Node list" "Node list"

text \<open>\<open>strings_Cut s sep\<close>: the text before and after the first occurrence of \<open>sep\<close>
  in \<open>s\<close>, where the lexer's \<open>strings.Index\<close> finds it.\<close>

fun strings_Cut :: "string \<Rightarrow> string \<Rightarrow> (string \<times> string) option" where
  "strings_Cut [] sep = (if sep = [] then Some ([], []) else None)"
| "strings_Cut (c # cs) sep =
     (if take (length sep) (c # cs) = sep then Some ([], drop (length sep) (c # cs))
      else (case strings_Cut cs sep of
              Some (before, after) \<Rightarrow> Some (c # before, after)
            | None \<Rightarrow> None))"

definition isBlank :: "char \<Rightarrow> bool" where
  "isBlank c = (c = CHR '' '' \<or> c = CHR 0x09)"

definition isLetter :: "char \<Rightarrow> bool" where
  "isLetter c =
     (c \<in> set ''abcdefghijklmnopqrstuvwxyz'' \<or> c \<in> set ''ABCDEFGHIJKLMNOPQRSTUVWXYZ''
      \<or> c = CHR ''_'')"

definition isDigit :: "char \<Rightarrow> bool" where
  "isDigit c = (c \<in> set ''0123456789'')"

definition isIdent :: "string \<Rightarrow> bool" where
  "isIdent s =
     (case s of
        [] \<Rightarrow> False
      | c # cs \<Rightarrow> isLetter c \<and> list_all (\<lambda>x. isLetter x \<or> isDigit x) cs)"

definition trimBlanks :: "string \<Rightarrow> string" where
  "trimBlanks s = rev (dropWhile isBlank (rev (dropWhile isBlank s)))"

text \<open>The action between \<open>{{\<close> and \<open>}}\<close>, or \<open>None\<close> when it is outside the subset.\<close>

definition classify :: "string \<Rightarrow> token option" where
  "classify action =
    (let a = trimBlanks action in
     if a = ''end'' then Some TEnd
     else if a = ''else'' then Some TElse
     else if a \<noteq> [] \<and> hd a = CHR ''.'' \<and> isIdent (tl a) then Some (TField (tl a))
     else if take 2 a = ''if'' \<and> drop 2 a \<noteq> [] \<and> isBlank (hd (drop 2 a))
       then (let g = dropWhile isBlank (drop 2 a) in
             if g \<noteq> [] \<and> hd g = CHR ''.'' \<and> isIdent (tl g) then Some (TIf (tl g))
             else None)
     else None)"

lemma cut_length:
  "strings_Cut s sep = Some (before, after) \<Longrightarrow> length before + length sep + length after = length s"
proof (induction s arbitrary: before after)
  case Nil
  then show ?case by (simp split: if_splits)
next
  case (Cons c cs)
  show ?case
  proof (cases "take (length sep) (c # cs) = sep")
    case True
    then have "length (take (length sep) (c # cs)) = length sep"
      by simp
    then have "length sep \<le> length (c # cs)"
      by simp
    with True Cons.prems show ?thesis by auto
  next
    case False
    with Cons.prems obtain b where "strings_Cut cs sep = Some (b, after)" and "before = c # b"
      by (auto split: option.splits)
    with Cons.IH show ?thesis by fastforce
  qed
qed

text \<open>The lexer emits a text item only for a non-empty stretch of text.\<close>

definition textToken :: "string \<Rightarrow> token list" where
  "textToken lit = (if lit = [] then [] else [TText lit])"

function lexTemplate :: "string \<Rightarrow> (tmpl_error + token list) option" where
  "lexTemplate s =
    (case strings_Cut s ''{{'' of
       None \<Rightarrow> Some (Inr (textToken s))
     | Some (lit, rest) \<Rightarrow>
        (case strings_Cut rest ''}}'' of
           None \<Rightarrow> Some (Inl SyntaxError)
         | Some (action, rest') \<Rightarrow>
            (case classify action of
               None \<Rightarrow> None
             | Some tok \<Rightarrow>
                (case lexTemplate rest' of
                   None \<Rightarrow> None
                 | Some (Inl e) \<Rightarrow> Some (Inl e)
                 | Some (Inr toks) \<Rightarrow> Some (Inr (textToken lit @ tok # toks))))))"
  by pat_completeness auto
termination
  by (relation "measure length") (auto dest!: cut_length)

text \<open>The tree of the tokens: \<open>cur\<close> holds the nodes of the list being read, newest
  first; \<open>stack\<close> holds, for every open \<open>if\<close>, its field, the list it interrupted and,
  once its \<open>else\<close> is read, its first branch.\<close>

fun parseNodes ::
  "token list \<Rightarrow> Node list \<Rightarrow> (string \<times> Node list \<times> Node list option) list
     \<Rightarrow> tmpl_error + Node list" where
  "parseNodes [] cur [] = Inr (rev cur)"
| "parseNodes [] cur (open # stack) = Inl SyntaxError"
| "parseNodes (TText s # ts) cur stack = parseNodes ts (TextNode s # cur) stack"
| "parseNodes (TField f # ts) cur stack = parseNodes ts (FieldNode f # cur) stack"
| "parseNodes (TIf f # ts) cur stack = parseNodes ts [] ((f, cur, None) # stack)"
| "parseNodes (TElse # ts) cur [] = Inl SyntaxError"
| "parseNodes (TElse # ts) cur ((f, outer, None) # stack) =
     parseNodes ts [] ((f, outer, Some (rev cur)) # stack)"
| "parseNodes (TElse # ts) cur ((f, outer, Some list) # stack) = Inl SyntaxError"
| "parseNodes (TEnd # ts) cur [] = Inl SyntaxError"
| "parseNodes (TEnd # ts) cur ((f, outer, None) # stack) =
     parseNodes ts (IfNode f (rev cur) [] # outer) stack"
| "parseNodes (TEnd # ts) cur ((f, outer, Some list) # stack) =
     parseNodes ts (IfNode f list (rev cur) # outer) stack"

text \<open>\<open>template.New(name).Parse(text)\<close>. The name only labels the library's messages.\<close>

definition template_Parse :: "string \<Rightarrow> string \<Rightarrow> (tmpl_error + Node list) option" where
  "template_Parse name text =
    (case lexTemplate text of
       None \<Rightarrow> None
     | Some (Inl e) \<Rightarrow> Some (Inl e)
     | Some (Inr toks) \<Rightarrow> Some (parseNodes toks [] []))"

text \<open>The exported fields of \<open>TemplateData\<close>, found by name as the library's reflection
  does; the struct has no methods.\<close>

definition lookupField :: "TemplateData \<Rightarrow> string \<Rightarrow> string option" where
  "lookupField data name =
    (if name = ''Summary'' then Some (Data_Summary data)
     else if name = ''Description'' then Some (Data_Description data)
     else if name = ''Status'' then Some (Data_Status data)
     else if name = ''IssueType'' then Some (Data_IssueType data)
     else if name = ''Priority'' then Some (Data_Priority data)
     else if name = ''Components'' then Some (Data_Components data)
     else if name = ''Labels'' then Some (Data_Labels data)
     else if name = ''Assignee'' then Some (Data_Assignee data)
     else if name = ''Reporter'' then Some (Data_Reporter data)
     else None)"

text \<open>
  \<open>tmpl.Execute(&buf, data)\<close>: the buffer is passed along and returned, with the error
  that stopped the walk, if any. Text is written as it is, a string field is written
  unescaped, and an \<open>if\<close> runs its first branch when the field is a non-empty string
  and its \<open>else\<close> branch otherwise.
\<close>

fun execNode :: "TemplateData \<Rightarrow> Node \<Rightarrow> string \<Rightarrow> string \<times> tmpl_error option"
  and execNodes :: "TemplateData \<Rightarrow> Node list \<Rightarrow> string \<Rightarrow> string \<times> tmpl_error option" where
  "execNode data (TextNode s) buf = (buf @ s, None)"
| "execNode data (FieldNode f) buf =
     (case lookupField data f of
        Some v \<Rightarrow> (buf @ v, None)
      | None \<Rightarrow> (buf, Some (CantEvaluateField f)))"
| "execNode data (IfNode f list elseList) buf =
     (case lookupField data f of
        Some v \<Rightarrow>
          (if v \<noteq> [] then execNodes data list buf else execNodes data elseList buf)
      | None \<Rightarrow> (buf, Some (CantEvaluateField f)))"
| "execNodes data [] buf = (buf, None)"
| "execNodes data (n # ns) buf =
     (case execNode data n buf of
        (buf', Some e) \<Rightarrow> (buf', Some e)
      | (buf', None) \<Rightarrow> execNodes data ns buf')"

definition template_Execute :: "Node list \<Rightarrow> TemplateData \<Rightarrow> string \<times> tmpl_error option" where
  "template_Execute tmpl data = execNodes data tmpl []"

section \<open>POML documents and convertPOMLToPrompt (pkg/prompt)\<close>

record POMLMetadata =
  Meta_Status :: string
  Meta_Type :: string
  Meta_Priority :: string
  Meta_Assignee :: string
  Meta_Reporter :: string
  Meta_Components :: string
  Meta_Labels :: string

record POMLSection =
  Section_Name :: string
  Section_Title :: string
  Section_Description :: string
  Section_Metadata :: POMLMetadata

record POMLContext =
  Context_Sections :: "POMLSection list"

record POMLRequirement =
  Requirement_Text :: string

record POMLOutputSection =
  Output_Name :: string
  Output_Title :: string
  Output_Content :: string

record POMLOutputFormat =
  OutputFormat_Sections :: "POMLOutputSection list"

record POMLStyle =
  Style_Formatting :: string

record POMLDocument =
  Doc_Role :: string
  Doc_Task :: string
  Doc_Context :: POMLContext
  Doc_Instructions :: "POMLRequirement list"
  Doc_OutputFormat :: POMLOutputFormat
  Doc_Style :: POMLStyle

abbreviation NL :: string where
  "NL \<equiv> [CHR 0x0A]"

text \<open>
  \<open>strings.TrimSpace\<close> on the bytes of a Go string. White space is what
  \<open>unicode.IsSpace\<close> accepts: tab, line feed, vertical tab, form feed, carriage return
  and space, and in UTF-8 the code points U+0085, U+00A0 (two bytes), U+1680,
  U+2000 to U+200A, U+2028, U+2029, U+202F, U+205F and U+3000 (three bytes).
  \<open>spaceWidth s\<close> is the number of bytes of the white-space character \<open>s\<close> starts
  with, or 0.
\<close>

definition asciiSpace :: "char \<Rightarrow> bool" where
  "asciiSpace c = (c \<in> set [CHR 0x09, CHR 0x0A, CHR 0x0B, CHR 0x0C, CHR 0x0D, CHR 0x20])"

definition wideSpaces :: "string list" where
  "wideSpaces =
     [[CHR 0xC2, CHR 0x85], [CHR 0xC2, CHR 0xA0], [CHR 0xE1, CHR 0x9A, CHR 0x80],
      [CHR 0xE2, CHR 0x80, CHR 0x80], [CHR 0xE2, CHR 0x80, CHR 0x81],
      [CHR 0xE2, CHR 0x80, CHR 0x82], [CHR 0xE2, CHR 0x80, CHR 0x83],
      [CHR 0xE2, CHR 0x80, CHR 0x84], [CHR 0xE2, CHR 0x80, CHR 0x85],
      [CHR 0xE2, CHR 0x80, CHR 0x86], [CHR 0xE2, CHR 0x80, CHR 0x87],
      [CHR 0xE2, CHR 0x80, CHR 0x88], [CHR 0xE2, CHR 0x80, CHR 0x89],
      [CHR 0xE2, CHR 0x80, CHR 0x8A], [CHR 0xE2, CHR 0x80, CHR 0xA8],
      [CHR 0xE2, CHR 0x80, CHR 0xA9], [CHR 0xE2, CHR 0x80, CHR 0xAF],
      [CHR 0xE2, CHR 0x81, CHR 0x9F], [CHR 0xE3, CHR 0x80, CHR 0x80]]"

definition spaceWidth :: "string \<Rightarrow> nat" where
  "spaceWidth s =
    (case s of
       [] \<Rightarrow> 0
     | c # cs \<Rightarrow>
        if asciiSpace c then 1
        else if take 2 s \<in> set wideSpaces then 2
        else if take 3 s \<in> set wideSpaces then 3
        else 0)"

text \<open>The same for the character \<open>s\<close> ends with, read on the reversed bytes.\<close>

definition spaceWidthRev :: "string \<Rightarrow> nat" where
  "spaceWidthRev r =
    (case r of
       [] \<Rightarrow> 0
     | c # cs \<Rightarrow>
        if asciiSpace c then 1
        else if rev (take 2 r) \<in> set wideSpaces then 2
        else if rev (take 3 r) \<in> set wideSpaces then 3
        else 0)"

function trimLeft :: "string \<Rightarrow> string" where
  "trimLeft s = (if spaceWidth s = 0 then s else trimLeft (drop (spaceWidth s) s))"
  by pat_completeness auto
termination
  by (relation "measure length") (auto simp: spaceWidth_def split: list.splits if_splits)

function trimRightRev :: "string \<Rightarrow> string" where
  "trimRightRev r = (if spaceWidthRev r = 0 then r else trimRightRev (drop (spaceWidthRev r) r))"
  by pat_completeness auto
termination
  by (relation "measure length") (auto simp: spaceWidthRev_def split: list.splits if_splits)

definition strings_TrimSpace :: "string \<Rightarrow> string" where
  "strings_TrimSpace s = rev (trimRightRev (rev (trimLeft s)))"

text \<open>
  The \<open>strings.Builder\<close> is the text written so far; \<open>WriteString\<close> appends, and
  \<open>fmt.Sprintf\<close> with \<open>%s\<close> verbs is the concatenation written out. Each loop of the
  function is a recursion over its slice that passes the builder along.
\<close>

definition WriteString :: "string \<Rightarrow> string \<Rightarrow> string" where
  "WriteString prompt s = prompt @ s"

definition writeContextSection :: "POMLSection \<Rightarrow> string \<Rightarrow> string" where
  "writeContextSection sec prompt =
    (let prompt = (if Section_Title sec \<noteq> []
           then WriteString prompt (NL @ ''Ticket: '' @ Section_Title sec @ NL) else prompt);
         prompt = (if Section_Description sec \<noteq> []
           then WriteString prompt (''Description: '' @ Section_Description sec @ NL)
           else prompt);
         prompt = (if Meta_Status (Section_Metadata sec) \<noteq> []
           then WriteString prompt (''Status: '' @ Meta_Status (Section_Metadata sec) @ NL)
           else prompt);
         prompt = (if Meta_Type (Section_Metadata sec) \<noteq> []
           then WriteString prompt (''Type: '' @ Meta_Type (Section_Metadata sec) @ NL)
           else prompt);
         prompt = (if Meta_Priority (Section_Metadata sec) \<noteq> []
           then WriteString prompt (''Priority: '' @ Meta_Priority (Section_Metadata sec) @ NL)
           else prompt);
         prompt = (if Meta_Assignee (Section_Metadata sec) \<noteq> []
           then WriteString prompt (''Assignee: '' @ Meta_Assignee (Section_Metadata sec) @ NL)
           else prompt);
         prompt = (if Meta_Reporter (Section_Metadata sec) \<noteq> []
           then WriteString prompt (''Reporter: '' @ Meta_Reporter (Section_Metadata sec) @ NL)
           else prompt);
         prompt = (if Meta_Components (Section_Metadata sec) \<noteq> []
           then WriteString prompt
                  (''Components: '' @ Meta_Components (Section_Metadata sec) @ NL)
           else prompt);
         prompt = (if Meta_Labels (Section_Metadata sec) \<noteq> []
           then WriteString prompt (''Labels: '' @ Meta_Labels (Section_Metadata sec) @ NL)
           else prompt)
     in prompt)"

primrec writeContextSections :: "POMLSection list \<Rightarrow> string \<Rightarrow> string" where
  "writeContextSections [] prompt = prompt"
| "writeContextSections (sec # rest) prompt =
     writeContextSections rest (writeContextSection sec prompt)"

primrec writeInstructions :: "POMLRequirement list \<Rightarrow> string \<Rightarrow> string" where
  "writeInstructions [] prompt = prompt"
| "writeInstructions (req # rest) prompt =
     writeInstructions rest
       (if strings_TrimSpace (Requirement_Text req) \<noteq> []
        then WriteString prompt (''- '' @ strings_TrimSpace (Requirement_Text req) @ NL)
        else prompt)"

definition writeOutputSection :: "POMLOutputSection \<Rightarrow> string \<Rightarrow> string" where
  "writeOutputSection sec prompt =
    (let prompt = (if Output_Title sec \<noteq> []
           then WriteString prompt (''## '' @ Output_Title sec @ NL) else prompt);
         prompt = (if Output_Content sec \<noteq> []
           then WriteString prompt (strings_TrimSpace (Output_Content sec) @ NL @ NL)
           else prompt)
     in prompt)"

primrec writeOutputSections :: "POMLOutputSection list \<Rightarrow> string \<Rightarrow> string" where
  "writeOutputSections [] prompt = prompt"
| "writeOutputSections (sec # rest) prompt =
     writeOutputSections rest (writeOutputSection sec prompt)"

definition convertPOMLToPrompt :: "POMLDocument \<Rightarrow> string" where
  "convertPOMLToPrompt doc =
    (let prompt = [];
         prompt = (if Doc_Role doc \<noteq> []
           then WriteString prompt (''Role: '' @ strings_TrimSpace (Doc_Role doc) @ NL @ NL)
           else prompt);
         prompt = (if Doc_Task doc \<noteq> []
           then WriteString prompt (''Task: '' @ strings_TrimSpace (Doc_Task doc) @ NL @ NL)
           else prompt);
         prompt = (if length (Context_Sections (Doc_Context doc)) > 0
           then WriteString
                  (writeContextSections (Context_Sections (Doc_Context doc))
                     (WriteString prompt (''Context:'' @ NL)))
                  NL
           else prompt);
         prompt = (if length (Doc_Instructions doc) > 0
           then WriteString
                  (writeInstructions (Doc_Instructions doc)
                     (WriteString prompt (''Instructions:'' @ NL)))
                  NL
           else prompt);
         prompt = (if length (OutputFormat_Sections (Doc_OutputFormat doc)) > 0
           then writeOutputSections (OutputFormat_Sections (Doc_OutputFormat doc))
                  (WriteString prompt
                     (''Please provide your response in the following format:'' @ NL @ NL))
           else prompt);
         prompt = (if Style_Formatting (Doc_Style doc) \<noteq> []
           then WriteString
                  (WriteString prompt (''Formatting Guidelines:'' @ NL))
                  (strings_TrimSpace (Style_Formatting (Doc_Style doc)) @ NL)
           else prompt)
     in prompt)"

section \<open>Loading and rendering a template (pkg/prompt, main.go)\<close>

text \<open>\<open>filepath.Base\<close> on a slash-separated path.\<close>

definition filepath_Base :: "string \<Rightarrow> string" where
  "filepath_Base path =
    (if path = [] then ''.''
     else (let stripped = rev (dropWhile (\<lambda>c. c = CHR ''/'') (rev path));
               elem = rev (takeWhile (\<lambda>c. c \<noteq> CHR ''/'') (rev stripped))
           in if elem = [] then ''/'' else elem))"

text \<open>
  The two loaders. \<open>ReadFile\<close> stands for \<open>os.ReadFile\<close> and \<open>xml_Unmarshal\<close> for
  \<open>xml.Unmarshal\<close> into a \<open>POMLDocument\<close>: each gives the message of its error or its
  result. The value of a loader is the pair the Go function returns, the text and the
  error; it is \<open>None\<close> where the template is outside the modelled subset of
  \<open>text/template\<close>.
\<close>

definition LoadAndRenderTemplate ::
  "(string \<Rightarrow> string + string) \<Rightarrow> string \<Rightarrow> 't Ticket \<Rightarrow> (string \<times> error option) option" where
  "LoadAndRenderTemplate ReadFile templatePath ticket =
    (case ReadFile templatePath of
       Inl err \<Rightarrow>
         Some ([], Some (Errorf (''failed to read template file '' @ templatePath @ '': '')
                          (OSError err)))
     | Inr templateContent \<Rightarrow>
        (let data = createTemplateData ticket in
         case template_Parse (filepath_Base templatePath) templateContent of
           None \<Rightarrow> None
         | Some (Inl err) \<Rightarrow>
             Some ([], Some (Errorf ''failed to parse template: '' (TemplateError err)))
         | Some (Inr tmpl) \<Rightarrow>
            (case template_Execute tmpl data of
               (buf, Some err) \<Rightarrow>
                 Some ([], Some (Errorf ''failed to execute template: '' (TemplateError err)))
             | (buf, None) \<Rightarrow> Some (buf, None))))"

definition LoadAndRenderPOMLTemplate ::
  "(string \<Rightarrow> string + string) \<Rightarrow> (string \<Rightarrow> string + POMLDocument) \<Rightarrow> string \<Rightarrow> 't Ticket
     \<Rightarrow> (string \<times> error option) option" where
  "LoadAndRenderPOMLTemplate ReadFile xml_Unmarshal templatePath ticket =
    (case ReadFile templatePath of
       Inl err \<Rightarrow>
         Some ([], Some (Errorf (''failed to read POML template file '' @ templatePath @ '': '')
                          (OSError err)))
     | Inr templateContent \<Rightarrow>
        (let data = createTemplateData ticket in
         case template_Parse ''poml'' templateContent of
           None \<Rightarrow> None
         | Some (Inl err) \<Rightarrow>
             Some ([], Some (Errorf ''failed to parse POML template: '' (TemplateError err)))
         | Some (Inr tmpl) \<Rightarrow>
            (case template_Execute tmpl data of
               (buf, Some err) \<Rightarrow>
                 Some ([], Some (Errorf ''failed to execute POML template: ''
                                  (TemplateError err)))
             | (buf, None) \<Rightarrow>
                (case xml_Unmarshal buf of
                   Inl err \<Rightarrow>
                     Some ([], Some (Errorf ''failed to parse POML XML: '' (XMLError err)))
                 | Inr pomlDoc \<Rightarrow> Some (convertPOMLToPrompt pomlDoc, None)))))"

definition GetDefaultTemplatePath :: string where
  "GetDefaultTemplatePath = ''prompts/implementation-plan.md''"

text \<open>
  The step of \<open>runJiraGenerator\<close> that turns the \<open>--template\<close> flag and the fetched
  ticket into the prompt text. On an error the program stops in \<open>log.Fatalf\<close>; the
  value here is what the loader returned.
\<close>

definition runJiraGenerator_prompt ::
  "(string \<Rightarrow> string + string) \<Rightarrow> string \<Rightarrow> 't Ticket \<Rightarrow> (string \<times> error option) option" where
  "runJiraGenerator_prompt ReadFile templatePath ticket =
    (let templateFilePath =
           (if templatePath = [] then GetDefaultTemplatePath else templatePath)
     in LoadAndRenderTemplate ReadFile templateFilePath ticket)"

section \<open>Vocabulary of the statements\<close>

text \<open>
  The text each step of \<open>convertPOMLToPrompt\<close> appends, as a function of the document
  alone: one context section, one requirement, one output section, and the six blocks.
  Lemma \<open>convert_blocks\<close> below proves that the function writes exactly these.
\<close>

definition sectionText :: "POMLSection \<Rightarrow> string" where
  "sectionText sec =
     (if Section_Title sec \<noteq> [] then NL @ ''Ticket: '' @ Section_Title sec @ NL else [])
     @ (if Section_Description sec \<noteq> []
        then ''Description: '' @ Section_Description sec @ NL else [])
     @ (if Meta_Status (Section_Metadata sec) \<noteq> []
        then ''Status: '' @ Meta_Status (Section_Metadata sec) @ NL else [])
     @ (if Meta_Type (Section_Metadata sec) \<noteq> []
        then ''Type: '' @ Meta_Type (Section_Metadata sec) @ NL else [])
     @ (if Meta_Priority (Section_Metadata sec) \<noteq> []
        then ''Priority: '' @ Meta_Priority (Section_Metadata sec) @ NL else [])
     @ (if Meta_Assignee (Section_Metadata sec) \<noteq> []
        then ''Assignee: '' @ Meta_Assignee (Section_Metadata sec) @ NL else [])
     @ (if Meta_Reporter (Section_Metadata sec) \<noteq> []
        then ''Reporter: '' @ Meta_Reporter (Section_Metadata sec) @ NL else [])
     @ (if Meta_Components (Section_Metadata sec) \<noteq> []
        then ''Components: '' @ Meta_Components (Section_Metadata sec) @ NL else [])
     @ (if Meta_Labels (Section_Metadata sec) \<noteq> []
        then ''Labels: '' @ Meta_Labels (Section_Metadata sec) @ NL else [])"

definition instructionText :: "POMLRequirement \<Rightarrow> string" where
  "instructionText req =
     (if strings_TrimSpace (Requirement_Text req) \<noteq> []
      then ''- '' @ strings_TrimSpace (Requirement_Text req) @ NL else [])"

definition outputSectionText :: "POMLOutputSection \<Rightarrow> string" where
  "outputSectionText sec =
     (if Output_Title sec \<noteq> [] then ''## '' @ Output_Title sec @ NL else [])
     @ (if Output_Content sec \<noteq> []
        then strings_TrimSpace (Output_Content sec) @ NL @ NL else [])"

definition roleBlock :: "POMLDocument \<Rightarrow> string" where
  "roleBlock doc =
     (if Doc_Role doc \<noteq> [] then ''Role: '' @ strings_TrimSpace (Doc_Role doc) @ NL @ NL
      else [])"

definition taskBlock :: "POMLDocument \<Rightarrow> string" where
  "taskBlock doc =
     (if Doc_Task doc \<noteq> [] then ''Task: '' @ strings_TrimSpace (Doc_Task doc) @ NL @ NL
      else [])"

definition contextBlock :: "POMLDocument \<Rightarrow> string" where
  "contextBlock doc =
     (if Context_Sections (Doc_Context doc) \<noteq> []
      then ''Context:'' @ NL @ concat (map sectionText (Context_Sections (Doc_Context doc))) @ NL
      else [])"

definition instructionsBlock :: "POMLDocument \<Rightarrow> string" where
  "instructionsBlock doc =
     (if Doc_Instructions doc \<noteq> []
      then ''Instructions:'' @ NL @ concat (map instructionText (Doc_Instructions doc)) @ NL
      else [])"

definition outputBlock :: "POMLDocument \<Rightarrow> string" where
  "outputBlock doc =
     (if OutputFormat_Sections (Doc_OutputFormat doc) \<noteq> []
      then ''Please provide your response in the following format:'' @ NL @ NL
           @ concat (map outputSectionText (OutputFormat_Sections (Doc_OutputFormat doc)))
      else [])"

definition styleBlock :: "POMLDocument \<Rightarrow> string" where
  "styleBlock doc =
     (if Style_Formatting (Doc_Style doc) \<noteq> []
      then ''Formatting Guidelines:'' @ NL
           @ strings_TrimSpace (Style_Formatting (Doc_Style doc)) @ NL
      else [])"

text \<open>The entry of one component in the projected \<open>Components\<close> value, in the words of
  the specification: the name, or the name followed by the lead's display name.\<close>

definition componentEntry :: "Component \<Rightarrow> string" where
  "componentEntry c =
     (case Component_Lead c of
        None \<Rightarrow> Component_Name c
      | Some lead \<Rightarrow> Component_Name c @ '' (Lead: '' @ User_DisplayName lead @ '')'')"



text \<open>Every field reference written in a template, evaluated or not.\<close>

fun referencedNode :: "Node \<Rightarrow> string list"
  and referencedNodes :: "Node list \<Rightarrow> string list" where
  "referencedNode (TextNode s) = []"
| "referencedNode (FieldNode f) = [f]"
| "referencedNode (IfNode f list elseList) =
     f # referencedNodes list @ referencedNodes elseList"
| "referencedNodes [] = []"
| "referencedNodes (n # ns) = referencedNode n @ referencedNodes ns"


section \<open>Example inputs\<close>

definition emptyMetadata :: POMLMetadata where
  "emptyMetadata =
     \<lparr>Meta_Status = [], Meta_Type = [], Meta_Priority = [], Meta_Assignee = [],
      Meta_Reporter = [], Meta_Components = [], Meta_Labels = []\<rparr>"

definition emptyDoc :: POMLDocument where
  "emptyDoc =
     \<lparr>Doc_Role = [], Doc_Task = [], Doc_Context = \<lparr>Context_Sections = []\<rparr>,
      Doc_Instructions = [], Doc_OutputFormat = \<lparr>OutputFormat_Sections = []\<rparr>,
      Doc_Style = \<lparr>Style_Formatting = []\<rparr>\<rparr>"

definition scenarioDoc :: POMLDocument where
  "scenarioDoc =
     emptyDoc\<lparr>Doc_Task := ''Plan the fix'',
       Doc_Context := \<lparr>Context_Sections =
         [\<lparr>Section_Name = [], Section_Title = ''LOGIN-1'', Section_Description = [],
           Section_Metadata = emptyMetadata\<rparr>]\<rparr>\<rparr>"

definition emptySectionDoc :: POMLDocument where
  "emptySectionDoc =
     emptyDoc\<lparr>Doc_Context := \<lparr>Context_Sections =
         [\<lparr>Section_Name = ''ticket-information'', Section_Title = [],
           Section_Description = [], Section_Metadata = emptyMetadata\<rparr>]\<rparr>\<rparr>"

text \<open>The raw field map \<open>{"summary": "Fix login bug", "status": {"id": "1", "name":
  "Open"}}\<close> under an envelope with empty \<open>id\<close> and \<open>key\<close>.\<close>

definition scenarioResponse :: "nat JiraResponse" where
  "scenarioResponse =
     \<lparr>Resp_ID = [], Resp_Key = [],
      Resp_Fields =
        [''summary'' \<mapsto> JString ''Fix login bug'',
         ''status'' \<mapsto> JObject [''id'' \<mapsto> JString ''1'', ''name'' \<mapsto> JString ''Open'']]\<rparr>"

text \<open>A time parser that accepts nothing, for instances where no timestamp is read.\<close>

definition rejectAll :: "string \<Rightarrow> string \<Rightarrow> nat option" where
  "rejectAll layout v = None"

text \<open>A ticket with an assignee, two components (the second with a lead) and two
  labels, and the same ticket with no assignee, components or labels.\<close>

definition exampleTicket :: "nat Ticket" where
  "exampleTicket =
     \<lparr>Ticket_ID = ''10001'', Ticket_Key = ''LOGIN-1'',
      Ticket_Summary = ''Fix login bug'', Ticket_Description = ''Users cannot log in'',
      Ticket_Status = \<lparr>Status_ID = ''1'', Status_Name = ''Open''\<rparr>,
      Ticket_IssueType = \<lparr>IssueType_ID = ''2'', IssueType_Name = ''Bug''\<rparr>,
      Ticket_Priority = \<lparr>Priority_ID = ''3'', Priority_Name = ''High''\<rparr>,
      Ticket_Assignee =
        Some \<lparr>User_AccountID = ''a1'', User_DisplayName = ''Ann'', User_EmailAddress = []\<rparr>,
      Ticket_Reporter =
        \<lparr>User_AccountID = ''b2'', User_DisplayName = ''Bob'', User_EmailAddress = []\<rparr>,
      Ticket_Created = 0, Ticket_Updated = 0,
      Ticket_Labels = [''urgent'', ''p2''],
      Ticket_Components =
        [\<lparr>Component_ID = ''1'', Component_Name = ''Auth'', Component_Description = [],
          Component_Lead = None, Component_Self = []\<rparr>,
         \<lparr>Component_ID = ''2'', Component_Name = ''UI'', Component_Description = [],
          Component_Lead =
            Some \<lparr>User_AccountID = ''a1'', User_DisplayName = ''Ann'',
                  User_EmailAddress = []\<rparr>,
          Component_Self = []\<rparr>],
      Ticket_Project = \<lparr>Project_ID = ''7'', Project_Key = ''LOGIN'', Project_Name = ''Login''\<rparr>\<rparr>"

definition bareTicket :: "nat Ticket" where
  "bareTicket =
     exampleTicket\<lparr>Ticket_Assignee := None, Ticket_Labels := [], Ticket_Components := []\<rparr>"

text \<open>A file system with a few templates; any other path fails to open.\<close>

definition exampleFiles :: "string \<Rightarrow> string + string" where
  "exampleFiles path =
     (if path = ''prompts/summary.md'' then Inr ''{{.Summary}}''
      else if path = ''prompts/guarded.md'' then Inr ''ok{{if .Labels}}{{.Bogus}}{{end}}''
      else if path = ''prompts/unknown.md'' then Inr ''Title: {{.Summary}} by {{.Author}}''
      else if path = ''prompts/else.md'' then Inr ''{{if .Labels}}a{{else}}{{.Bogus}}{{end}}''
      else if path = ''prompts/implementation-plan.poml''
        then Inr ''<poml><task>Plan {{.Summary}}</task></poml>''
      else if path = ''prompts/unclosed.poml'' then Inr ''<poml><role>{{.Summary}}''
      else if path = ''prompts/unknown.poml'' then Inr ''<poml><role>{{.Author}}</role></poml>''
      else if path = ''prompts/malformed.poml'' then Inr ''<poml><role>{{.Summary</role></poml>''
      else Inl (''open '' @ path @ '': no such file or directory''))"


section \<open>parseTicket is total and lenient\<close>

text \<open>A guarded assignment \<open>if v, ok := ...; ok { ticket.F = ... }\<close> is an update of the
  field \<open>F\<close> alone.\<close>

lemma guarded_update:
  "(case a of None \<Rightarrow> t | Some s \<Rightarrow> Ticket_Summary_update (h1 s) t)
     = Ticket_Summary_update (\<lambda>old. case a of None \<Rightarrow> old | Some s \<Rightarrow> h1 s old) t"
  "(case a of None \<Rightarrow> t | Some s \<Rightarrow> Ticket_Description_update (h2 s) t)
     = Ticket_Description_update (\<lambda>old. case a of None \<Rightarrow> old | Some s \<Rightarrow> h2 s old) t"
  "(case b of None \<Rightarrow> t | Some m \<Rightarrow> Ticket_Status_update (h3 m) t)
     = Ticket_Status_update (\<lambda>old. case b of None \<Rightarrow> old | Some m \<Rightarrow> h3 m old) t"
  "(case b of None \<Rightarrow> t | Some m \<Rightarrow> Ticket_IssueType_update (h4 m) t)
     = Ticket_IssueType_update (\<lambda>old. case b of None \<Rightarrow> old | Some m \<Rightarrow> h4 m old) t"
  "(case b of None \<Rightarrow> t | Some m \<Rightarrow> Ticket_Priority_update (h5 m) t)
     = Ticket_Priority_update (\<lambda>old. case b of None \<Rightarrow> old | Some m \<Rightarrow> h5 m old) t"
  "(case b of None \<Rightarrow> t | Some m \<Rightarrow> Ticket_Assignee_update (h6 m) t)
     = Ticket_Assignee_update (\<lambda>old. case b of None \<Rightarrow> old | Some m \<Rightarrow> h6 m old) t"
  "(case b of None \<Rightarrow> t | Some m \<Rightarrow> Ticket_Reporter_update (h7 m) t)
     = Ticket_Reporter_update (\<lambda>old. case b of None \<Rightarrow> old | Some m \<Rightarrow> h7 m old) t"
  "(case c of None \<Rightarrow> t | Some x \<Rightarrow> Ticket_Created_update (h8 x) t)
     = Ticket_Created_update (\<lambda>old. case c of None \<Rightarrow> old | Some x \<Rightarrow> h8 x old) t"
  "(case c of None \<Rightarrow> t | Some x \<Rightarrow> Ticket_Updated_update (h9 x) t)
     = Ticket_Updated_update (\<lambda>old. case c of None \<Rightarrow> old | Some x \<Rightarrow> h9 x old) t"
  "(case d of None \<Rightarrow> t | Some l \<Rightarrow> Ticket_Labels_update (h10 l) t)
     = Ticket_Labels_update (\<lambda>old. case d of None \<Rightarrow> old | Some l \<Rightarrow> h10 l old) t"
  "(case d of None \<Rightarrow> t | Some l \<Rightarrow> Ticket_Components_update (h11 l) t)
     = Ticket_Components_update (\<lambda>old. case d of None \<Rightarrow> old | Some l \<Rightarrow> h11 l old) t"
  "(case b of None \<Rightarrow> t | Some m \<Rightarrow> Ticket_Project_update (h12 m) t)
     = Ticket_Project_update (\<lambda>old. case b of None \<Rightarrow> old | Some m \<Rightarrow> h12 m old) t"
  by (simp_all split: option.splits)

text \<open>The ticket \<open>parseTicket\<close> returns, field by field.\<close>

lemma parseTicket_closed:
  "parseTicket zeroTime time_Parse resp =
     (\<lparr>Ticket_ID = Resp_ID resp, Ticket_Key = Resp_Key resp,
       Ticket_Summary =
         (case assertString (Resp_Fields resp ''summary'') of None \<Rightarrow> [] | Some s \<Rightarrow> s),
       Ticket_Description =
         (case assertString (Resp_Fields resp ''description'') of None \<Rightarrow> [] | Some s \<Rightarrow> s),
       Ticket_Status =
         (case assertMap (Resp_Fields resp ''status'') of None \<Rightarrow> zeroStatus
          | Some m \<Rightarrow> \<lparr>Status_ID = getStringFromMap m ''id'',
                       Status_Name = getStringFromMap m ''name''\<rparr>),
       Ticket_IssueType =
         (case assertMap (Resp_Fields resp ''issuetype'') of None \<Rightarrow> zeroIssueType
          | Some m \<Rightarrow> \<lparr>IssueType_ID = getStringFromMap m ''id'',
                       IssueType_Name = getStringFromMap m ''name''\<rparr>),
       Ticket_Priority =
         (case assertMap (Resp_Fields resp ''priority'') of None \<Rightarrow> zeroPriority
          | Some m \<Rightarrow> \<lparr>Priority_ID = getStringFromMap m ''id'',
                       Priority_Name = getStringFromMap m ''name''\<rparr>),
       Ticket_Assignee =
         (case assertMap (Resp_Fields resp ''assignee'') of None \<Rightarrow> None
          | Some m \<Rightarrow> Some (parseUser m)),
       Ticket_Reporter =
         (case assertMap (Resp_Fields resp ''reporter'') of None \<Rightarrow> zeroUser
          | Some m \<Rightarrow> parseUser m),
       Ticket_Created =
         (case assertString (Resp_Fields resp ''created'') of None \<Rightarrow> zeroTime
          | Some s \<Rightarrow> (case time_Parse timeLayout s of None \<Rightarrow> zeroTime | Some t \<Rightarrow> t)),
       Ticket_Updated =
         (case assertString (Resp_Fields resp ''updated'') of None \<Rightarrow> zeroTime
          | Some s \<Rightarrow> (case time_Parse timeLayout s of None \<Rightarrow> zeroTime | Some t \<Rightarrow> t)),
       Ticket_Labels =
         (case assertSlice (Resp_Fields resp ''labels'') of None \<Rightarrow> []
          | Some l \<Rightarrow> parseLabels l []),
       Ticket_Components =
         (case assertSlice (Resp_Fields resp ''components'') of None \<Rightarrow> []
          | Some l \<Rightarrow> parseComponents l []),
       Ticket_Project =
         (case assertMap (Resp_Fields resp ''project'') of None \<Rightarrow> zeroProject
          | Some m \<Rightarrow> \<lparr>Project_ID = getStringFromMap m ''id'',
                       Project_Key = getStringFromMap m ''key'',
                       Project_Name = getStringFromMap m ''name''\<rparr>)\<rparr>,
      None)"
  unfolding parseTicket_def
  by (simp add: guarded_update Let_def cong: option.case_cong)

text \<open>The loops keep the conforming elements, in order, and skip the others.\<close>

lemma parseLabels_eq:
  "parseLabels js labels = labels @ List.map_filter (\<lambda>j. assertString (Some j)) js"
  by (induction js arbitrary: labels) (simp_all split: option.splits)

lemma parseComponents_eq:
  "parseComponents js components =
     components @ map parseComponent (List.map_filter (\<lambda>j. assertMap (Some j)) js)"
  by (induction js arbitrary: components)
    (simp_all split: option.splits)

text \<open>
  Claim C1. For every raw field map, \<open>parseTicket\<close> returns a ticket and no error; the
  envelope's id and key are copied; and every known field whose key is absent or whose
  value has the wrong shape (for a timestamp: is no string, or a string the fixed layout
  does not parse) is left at the zero value of its type. For the raw map
  \<open>{"summary": "Fix login bug", "status": {"id": "1", "name": "Open"}}\<close> the result is
  the ticket with that summary and status and every other field zero, \<open>IssueType\<close>
  included, with no error.
\<close>

theorem C1_parseTicket_never_fails:
  "(case parseTicket zeroTime time_Parse resp of
      (ticket, err) \<Rightarrow>
        err = None
        \<and> Ticket_ID ticket = Resp_ID resp
        \<and> Ticket_Key ticket = Resp_Key resp
        \<and> (assertString (Resp_Fields resp ''summary'') = None \<longrightarrow> Ticket_Summary ticket = [])
        \<and> (assertString (Resp_Fields resp ''description'') = None
             \<longrightarrow> Ticket_Description ticket = [])
        \<and> (assertMap (Resp_Fields resp ''status'') = None
             \<longrightarrow> Ticket_Status ticket = zeroStatus)
        \<and> (assertMap (Resp_Fields resp ''issuetype'') = None
             \<longrightarrow> Ticket_IssueType ticket = zeroIssueType)
        \<and> (assertMap (Resp_Fields resp ''priority'') = None
             \<longrightarrow> Ticket_Priority ticket = zeroPriority)
        \<and> (assertMap (Resp_Fields resp ''assignee'') = None \<longrightarrow> Ticket_Assignee ticket = None)
        \<and> (assertMap (Resp_Fields resp ''reporter'') = None
             \<longrightarrow> Ticket_Reporter ticket = zeroUser)
        \<and> ((\<forall>s. assertString (Resp_Fields resp ''created'') = Some s
                  \<longrightarrow> time_Parse timeLayout s = None)
             \<longrightarrow> Ticket_Created ticket = zeroTime)
        \<and> ((\<forall>s. assertString (Resp_Fields resp ''updated'') = Some s
                  \<longrightarrow> time_Parse timeLayout s = None)
             \<longrightarrow> Ticket_Updated ticket = zeroTime)
        \<and> (assertSlice (Resp_Fields resp ''labels'') = None \<longrightarrow> Ticket_Labels ticket = [])
        \<and> (assertSlice (Resp_Fields resp ''components'') = None
             \<longrightarrow> Ticket_Components ticket = [])
        \<and> (assertMap (Resp_Fields resp ''project'') = None
             \<longrightarrow> Ticket_Project ticket = zeroProject))
   \<and> parseTicket zeroTime time_Parse
        \<lparr>Resp_ID = [], Resp_Key = [],
         Resp_Fields =
           [''summary'' \<mapsto> JString ''Fix login bug'',
            ''status'' \<mapsto> JObject [''id'' \<mapsto> JString ''1'', ''name'' \<mapsto> JString ''Open'']]\<rparr>
      = (\<lparr>Ticket_ID = [], Ticket_Key = [],
          Ticket_Summary = ''Fix login bug'', Ticket_Description = [],
          Ticket_Status = \<lparr>Status_ID = ''1'', Status_Name = ''Open''\<rparr>,
          Ticket_IssueType = \<lparr>IssueType_ID = [], IssueType_Name = []\<rparr>,
          Ticket_Priority = \<lparr>Priority_ID = [], Priority_Name = []\<rparr>,
          Ticket_Assignee = None,
          Ticket_Reporter =
            \<lparr>User_AccountID = [], User_DisplayName = [], User_EmailAddress = []\<rparr>,
          Ticket_Created = zeroTime, Ticket_Updated = zeroTime,
          Ticket_Labels = [], Ticket_Components = [],
          Ticket_Project = \<lparr>Project_ID = [], Project_Key = [], Project_Name = []\<rparr>\<rparr>,
         None)"
proof (rule conjI)
  show "case parseTicket zeroTime time_Parse resp of
      (ticket, err) \<Rightarrow>
        err = None
        \<and> Ticket_ID ticket = Resp_ID resp
        \<and> Ticket_Key ticket = Resp_Key resp
        \<and> (assertString (Resp_Fields resp ''summary'') = None \<longrightarrow> Ticket_Summary ticket = [])
        \<and> (assertString (Resp_Fields resp ''description'') = None
             \<longrightarrow> Ticket_Description ticket = [])
        \<and> (assertMap (Resp_Fields resp ''status'') = None
             \<longrightarrow> Ticket_Status ticket = zeroStatus)
        \<and> (assertMap (Resp_Fields resp ''issuetype'') = None
             \<longrightarrow> Ticket_IssueType ticket = zeroIssueType)
        \<and> (assertMap (Resp_Fields resp ''priority'') = None
             \<longrightarrow> Ticket_Priority ticket = zeroPriority)
        \<and> (assertMap (Resp_Fields resp ''assignee'') = None \<longrightarrow> Ticket_Assignee ticket = None)
        \<and> (assertMap (Resp_Fields resp ''reporter'') = None
             \<longrightarrow> Ticket_Reporter ticket = zeroUser)
        \<and> ((\<forall>s. assertString (Resp_Fields resp ''created'') = Some s
                  \<longrightarrow> time_Parse timeLayout s = None)
             \<longrightarrow> Ticket_Created ticket = zeroTime)
        \<and> ((\<forall>s. assertString (Resp_Fields resp ''updated'') = Some s
                  \<longrightarrow> time_Parse timeLayout s = None)
             \<longrightarrow> Ticket_Updated ticket = zeroTime)
        \<and> (assertSlice (Resp_Fields resp ''labels'') = None \<longrightarrow> Ticket_Labels ticket = [])
        \<and> (assertSlice (Resp_Fields resp ''components'') = None
             \<longrightarrow> Ticket_Components ticket = [])
        \<and> (assertMap (Resp_Fields resp ''project'') = None
             \<longrightarrow> Ticket_Project ticket = zeroProject)"
    by (simp add: parseTicket_closed split: option.splits)
next
  show "parseTicket zeroTime time_Parse
        \<lparr>Resp_ID = [], Resp_Key = [],
         Resp_Fields =
           [''summary'' \<mapsto> JString ''Fix login bug'',
            ''status'' \<mapsto> JObject [''id'' \<mapsto> JString ''1'', ''name'' \<mapsto> JString ''Open'']]\<rparr>
      = (\<lparr>Ticket_ID = [], Ticket_Key = [],
          Ticket_Summary = ''Fix login bug'', Ticket_Description = [],
          Ticket_Status = \<lparr>Status_ID = ''1'', Status_Name = ''Open''\<rparr>,
          Ticket_IssueType = \<lparr>IssueType_ID = [], IssueType_Name = []\<rparr>,
          Ticket_Priority = \<lparr>Priority_ID = [], Priority_Name = []\<rparr>,
          Ticket_Assignee = None,
          Ticket_Reporter =
            \<lparr>User_AccountID = [], User_DisplayName = [], User_EmailAddress = []\<rparr>,
          Ticket_Created = zeroTime, Ticket_Updated = zeroTime,
          Ticket_Labels = [], Ticket_Components = [],
          Ticket_Project = \<lparr>Project_ID = [], Project_Key = [], Project_Name = []\<rparr>\<rparr>,
         None)"
    by (simp add: parseTicket_closed getStringFromMap_def zeroStatus_def zeroIssueType_def
        zeroPriority_def zeroUser_def zeroProject_def)
qed

theorem C1_parseTicket_never_fails_witness:
  "assertMap (Resp_Fields scenarioResponse ''issuetype'') = None
   \<and> snd (parseTicket 0 rejectAll scenarioResponse) = None
   \<and> Ticket_IssueType (fst (parseTicket 0 rejectAll scenarioResponse)) = zeroIssueType
   \<and> Ticket_Summary (fst (parseTicket 0 rejectAll scenarioResponse)) = ''Fix login bug''"
proof -
  have run: "parseTicket 0 rejectAll scenarioResponse
      = (\<lparr>Ticket_ID = [], Ticket_Key = [],
          Ticket_Summary = ''Fix login bug'', Ticket_Description = [],
          Ticket_Status = \<lparr>Status_ID = ''1'', Status_Name = ''Open''\<rparr>,
          Ticket_IssueType = \<lparr>IssueType_ID = [], IssueType_Name = []\<rparr>,
          Ticket_Priority = \<lparr>Priority_ID = [], Priority_Name = []\<rparr>,
          Ticket_Assignee = None,
          Ticket_Reporter =
            \<lparr>User_AccountID = [], User_DisplayName = [], User_EmailAddress = []\<rparr>,
          Ticket_Created = 0, Ticket_Updated = 0,
          Ticket_Labels = [], Ticket_Components = [],
          Ticket_Project = \<lparr>Project_ID = [], Project_Key = [], Project_Name = []\<rparr>\<rparr>,
         None)"
    using C1_parseTicket_never_fails
      [where zeroTime = 0 and time_Parse = rejectAll and resp = scenarioResponse,
        THEN conjunct2]
    unfolding scenarioResponse_def .
  show ?thesis
    unfolding run by (simp add: scenarioResponse_def zeroIssueType_def)
qed

section \<open>The rendering context\<close>

lemma compNamesLoop_eq: "compNamesLoop comps compNames = compNames @ map componentEntry comps"
  by (induction comps arbitrary: compNames) (simp_all add: componentEntry_def split: option.splits)

lemma createTemplateData_closed:
  "createTemplateData ticket =
     \<lparr>Data_Summary = Ticket_Summary ticket,
      Data_Description = Ticket_Description ticket,
      Data_Status = Status_Name (Ticket_Status ticket),
      Data_IssueType = IssueType_Name (Ticket_IssueType ticket),
      Data_Priority = Priority_Name (Ticket_Priority ticket),
      Data_Components = strings_Join (map componentEntry (Ticket_Components ticket)) '', '',
      Data_Labels = strings_Join (Ticket_Labels ticket) '', '',
      Data_Assignee =
        (case Ticket_Assignee ticket of
           None \<Rightarrow> ''Unassigned''
         | Some assignee \<Rightarrow> User_DisplayName assignee),
      Data_Reporter = User_DisplayName (Ticket_Reporter ticket)\<rparr>"
  by (simp add: createTemplateData_def Let_def compNamesLoop_eq split: option.splits)

text \<open>
  Claim C7. For every ticket, the projected \<open>Assignee\<close> is the literal \<open>Unassigned\<close>
  when the ticket has no assignee (\<open>nil\<close>) and the assignee's display name when it has
  one; the projected \<open>Reporter\<close> is always the reporter's display name, which may be
  empty.
\<close>

theorem C7_assignee_reporter:
  "(Ticket_Assignee ticket = None \<longrightarrow> Data_Assignee (createTemplateData ticket) = ''Unassigned'')
   \<and> (\<forall>assignee. Ticket_Assignee ticket = Some assignee \<longrightarrow>
         Data_Assignee (createTemplateData ticket) = User_DisplayName assignee)
   \<and> Data_Reporter (createTemplateData ticket) = User_DisplayName (Ticket_Reporter ticket)"
  by (simp add: createTemplateData_closed)

theorem C7_assignee_reporter_witness:
  "Data_Assignee (createTemplateData bareTicket) = ''Unassigned''
   \<and> Data_Assignee (createTemplateData exampleTicket) = ''Ann''
   \<and> Data_Reporter (createTemplateData exampleTicket) = ''Bob''"
  using C7_assignee_reporter [of bareTicket] C7_assignee_reporter [of exampleTicket]
  by (simp add: bareTicket_def exampleTicket_def)

text \<open>
  Claim C10. For every ticket, the projected \<open>Components\<close> is the components' entries in
  source order joined by a comma and a space, an entry being the component's name, or
  \<open>name (Lead: display name)\<close> when the component has a lead; the projected \<open>Labels\<close> is
  the labels joined the same way; an empty sequence projects to the empty string, the
  field being always there.
\<close>

theorem C10_components_labels:
  "Data_Components (createTemplateData ticket)
     = strings_Join (map componentEntry (Ticket_Components ticket)) '', ''
   \<and> Data_Labels (createTemplateData ticket) = strings_Join (Ticket_Labels ticket) '', ''
   \<and> (Ticket_Components ticket = [] \<longrightarrow> Data_Components (createTemplateData ticket) = [])
   \<and> (Ticket_Labels ticket = [] \<longrightarrow> Data_Labels (createTemplateData ticket) = [])"
  by (simp add: createTemplateData_closed)

theorem C10_components_labels_witness:
  "Data_Components (createTemplateData exampleTicket) = ''Auth, UI (Lead: Ann)''
   \<and> Data_Labels (createTemplateData exampleTicket) = ''urgent, p2''
   \<and> Data_Components (createTemplateData bareTicket) = []
   \<and> Data_Labels (createTemplateData bareTicket) = []"
  using C10_components_labels [of exampleTicket] C10_components_labels [of bareTicket]
  by (simp add: bareTicket_def exampleTicket_def componentEntry_def)

section \<open>The flatten step\<close>

lemma write_if: "(if c then WriteString prompt s else prompt) = prompt @ (if c then s else [])"
  by (simp add: WriteString_def)

lemma writeContextSection_eq: "writeContextSection sec prompt = prompt @ sectionText sec"
  by (simp add: writeContextSection_def sectionText_def write_if Let_def)

lemma writeContextSections_eq:
  "writeContextSections secs prompt = prompt @ concat (map sectionText secs)"
  by (induction secs arbitrary: prompt) (simp_all add: writeContextSection_eq)

lemma writeInstructions_eq:
  "writeInstructions reqs prompt = prompt @ concat (map instructionText reqs)"
  by (induction reqs arbitrary: prompt) (simp_all add: instructionText_def WriteString_def)

lemma writeOutputSection_eq: "writeOutputSection sec prompt = prompt @ outputSectionText sec"
  by (simp add: writeOutputSection_def outputSectionText_def write_if Let_def)

lemma writeOutputSections_eq:
  "writeOutputSections secs prompt = prompt @ concat (map outputSectionText secs)"
  by (induction secs arbitrary: prompt) (simp_all add: writeOutputSection_eq)

lemma if_append: "(if c then prompt @ s else prompt) = prompt @ (if c then s else [])"
  by simp

lemma convert_blocks:
  "convertPOMLToPrompt doc =
     roleBlock doc @ taskBlock doc @ contextBlock doc @ instructionsBlock doc
     @ outputBlock doc @ styleBlock doc"
  by (simp add: convertPOMLToPrompt_def Let_def writeContextSections_eq
      writeInstructions_eq writeOutputSections_eq WriteString_def roleBlock_def taskBlock_def
      contextBlock_def instructionsBlock_def outputBlock_def styleBlock_def if_append
      split del: if_split cong: if_cong)

lemma trimSpace_plain: "strings_TrimSpace ''Plan the fix'' = ''Plan the fix''"
  by (simp add: strings_TrimSpace_def spaceWidth_def spaceWidthRev_def asciiSpace_def
      wideSpaces_def)

lemma scenarioDoc_text:
  "convertPOMLToPrompt scenarioDoc =
     ''Task: Plan the fix'' @ NL @ NL @ ''Context:'' @ NL @ NL @ ''Ticket: LOGIN-1'' @ NL @ NL"
  by (simp add: convert_blocks roleBlock_def taskBlock_def contextBlock_def
      instructionsBlock_def outputBlock_def styleBlock_def sectionText_def scenarioDoc_def
      emptyDoc_def emptyMetadata_def trimSpace_plain)

text \<open>
  Claim C3 says that the document with empty role, task \<open>Plan the fix\<close>, one context
  section titled \<open>LOGIN-1\<close> with nothing else, and no instructions, output sections or
  style flattens to \<open>"Task: Plan the fix\n\nContext:\n\nTicket: LOGIN-1\n"\<close>. The code
  closes the context block with one more line feed, so the text is not that one.
\<close>

theorem C3_flatten_scenario_counterexample:
  "convertPOMLToPrompt scenarioDoc \<noteq>
     ''Task: Plan the fix'' @ NL @ NL @ ''Context:'' @ NL @ NL @ ''Ticket: LOGIN-1'' @ NL"
  by (simp add: scenarioDoc_text)

text \<open>
  Claim C3, amended. That document flattens to exactly
  \<open>"Task: Plan the fix\n\nContext:\n\nTicket: LOGIN-1\n\n"\<close>: no Role block, no
  Instructions, Output or Style block, and the blank line that ends the Context block.
\<close>

theorem C3_flatten_scenario:
  "convertPOMLToPrompt scenarioDoc =
     ''Task: Plan the fix'' @ NL @ NL @ ''Context:'' @ NL @ NL @ ''Ticket: LOGIN-1'' @ NL @ NL"
  by (rule scenarioDoc_text)

lemma emptySectionDoc_text: "convertPOMLToPrompt emptySectionDoc = ''Context:'' @ NL @ NL"
  by (simp add: convert_blocks roleBlock_def taskBlock_def contextBlock_def
      instructionsBlock_def outputBlock_def styleBlock_def sectionText_def emptySectionDoc_def
      emptyDoc_def emptyMetadata_def)

text \<open>
  Claim C4 says that a block all of whose fields are empty produces no output, and in
  particular no heading followed by nothing. A document whose only content is one context
  section with every field empty flattens to the heading \<open>Context:\<close> followed by an
  empty line.
\<close>

theorem C4_empty_section_counterexample:
  "Context_Sections (Doc_Context emptySectionDoc)
     = [\<lparr>Section_Name = ''ticket-information'', Section_Title = [],
         Section_Description = [],
         Section_Metadata =
           \<lparr>Meta_Status = [], Meta_Type = [], Meta_Priority = [], Meta_Assignee = [],
            Meta_Reporter = [], Meta_Components = [], Meta_Labels = []\<rparr>\<rparr>]
   \<and> convertPOMLToPrompt emptySectionDoc = ''Context:'' @ NL @ NL"
  by (simp add: emptySectionDoc_text) (simp add: emptySectionDoc_def emptyDoc_def emptyMetadata_def)

lemma if_empty_iff: "((if c then s else []) = []) = (c \<longrightarrow> s = [])"
  by simp

lemma block_empty_iff:
  "roleBlock doc = [] \<longleftrightarrow> Doc_Role doc = []"
  "taskBlock doc = [] \<longleftrightarrow> Doc_Task doc = []"
  "contextBlock doc = [] \<longleftrightarrow> Context_Sections (Doc_Context doc) = []"
  "instructionsBlock doc = [] \<longleftrightarrow> Doc_Instructions doc = []"
  "outputBlock doc = [] \<longleftrightarrow> OutputFormat_Sections (Doc_OutputFormat doc) = []"
  "styleBlock doc = [] \<longleftrightarrow> Style_Formatting (Doc_Style doc) = []"
  by (simp_all add: roleBlock_def taskBlock_def contextBlock_def instructionsBlock_def
      outputBlock_def styleBlock_def if_empty_iff split del: if_split)

lemma convert_empty_iff:
  "convertPOMLToPrompt doc = [] \<longleftrightarrow>
     Doc_Role doc = [] \<and> Doc_Task doc = [] \<and> Context_Sections (Doc_Context doc) = []
     \<and> Doc_Instructions doc = [] \<and> OutputFormat_Sections (Doc_OutputFormat doc) = []
     \<and> Style_Formatting (Doc_Style doc) = []"
  by (simp only: convert_blocks append_is_Nil_conv block_empty_iff)

text \<open>
  Claim C4, amended. The output of the flatten step is the Role, Task, Context,
  Instructions, Output-format and Style blocks in this order. The Role, Task and Style
  blocks are written exactly when their string is non-empty before trimming; the Context,
  Instructions and Output-format blocks, heading included, exactly when their sequence
  has at least one element, whatever the fields of the elements hold. The output is empty
  exactly when all three strings and all three sequences are empty.
\<close>

theorem C4_block_emission:
  "convertPOMLToPrompt doc =
     roleBlock doc @ taskBlock doc @ contextBlock doc @ instructionsBlock doc
     @ outputBlock doc @ styleBlock doc
   \<and> (roleBlock doc \<noteq> [] \<longleftrightarrow> Doc_Role doc \<noteq> [])
   \<and> (taskBlock doc \<noteq> [] \<longleftrightarrow> Doc_Task doc \<noteq> [])
   \<and> (contextBlock doc \<noteq> [] \<longleftrightarrow> Context_Sections (Doc_Context doc) \<noteq> [])
   \<and> (instructionsBlock doc \<noteq> [] \<longleftrightarrow> Doc_Instructions doc \<noteq> [])
   \<and> (outputBlock doc \<noteq> [] \<longleftrightarrow> OutputFormat_Sections (Doc_OutputFormat doc) \<noteq> [])
   \<and> (styleBlock doc \<noteq> [] \<longleftrightarrow> Style_Formatting (Doc_Style doc) \<noteq> [])
   \<and> (convertPOMLToPrompt doc = [] \<longleftrightarrow>
        Doc_Role doc = [] \<and> Doc_Task doc = [] \<and> Context_Sections (Doc_Context doc) = []
        \<and> Doc_Instructions doc = [] \<and> OutputFormat_Sections (Doc_OutputFormat doc) = []
        \<and> Style_Formatting (Doc_Style doc) = [])"
proof -
  have blocks: "convertPOMLToPrompt doc =
     roleBlock doc @ taskBlock doc @ contextBlock doc @ instructionsBlock doc
     @ outputBlock doc @ styleBlock doc"
    by (rule convert_blocks)
  have r: "roleBlock doc \<noteq> [] \<longleftrightarrow> Doc_Role doc \<noteq> []"
    by (simp only: block_empty_iff)
  have t: "taskBlock doc \<noteq> [] \<longleftrightarrow> Doc_Task doc \<noteq> []"
    by (simp only: block_empty_iff)
  have c: "contextBlock doc \<noteq> [] \<longleftrightarrow> Context_Sections (Doc_Context doc) \<noteq> []"
    by (simp only: block_empty_iff)
  have i: "instructionsBlock doc \<noteq> [] \<longleftrightarrow> Doc_Instructions doc \<noteq> []"
    by (simp only: block_empty_iff)
  have out: "outputBlock doc \<noteq> [] \<longleftrightarrow> OutputFormat_Sections (Doc_OutputFormat doc) \<noteq> []"
    by (simp only: block_empty_iff)
  have s: "styleBlock doc \<noteq> [] \<longleftrightarrow> Style_Formatting (Doc_Style doc) \<noteq> []"
    by (simp only: block_empty_iff)
  from blocks r t c i out s convert_empty_iff [of doc] show ?thesis
    by blast
qed

theorem C4_block_emission_witness:
  "convertPOMLToPrompt emptyDoc = [] \<and> contextBlock emptySectionDoc \<noteq> []
   \<and> convertPOMLToPrompt emptySectionDoc = contextBlock emptySectionDoc"
  using C4_block_emission [of emptyDoc] C4_block_emission [of emptySectionDoc]
  by (simp add: emptyDoc_def emptySectionDoc_def roleBlock_def taskBlock_def
      instructionsBlock_def outputBlock_def styleBlock_def)

section \<open>Rendering templates\<close>

text \<open>The templates of the example file system, parsed.\<close>

lemmas lex_defs = template_Parse_def classify_def trimBlanks_def isBlank_def isIdent_def
  isLetter_def isDigit_def textToken_def

lemma parse_summary: "template_Parse name ''{{.Summary}}'' = Some (Inr [FieldNode ''Summary''])"
  by (simp add: lex_defs)




lemma parse_poml:
  "template_Parse name ''<poml><task>Plan {{.Summary}}</task></poml>''
     = Some (Inr [TextNode ''<poml><task>Plan '', FieldNode ''Summary'',
                  TextNode ''</task></poml>''])"
  by (simp add: lex_defs)














text \<open>
  Claim C9. For every ticket, rendering the flat template whose text is just the marker
  \<open>{{.Summary}}\<close> returns exactly the ticket's summary, and no error.
\<close>

theorem C9_summary_marker:
  assumes "ReadFile templatePath = Inr ''{{.Summary}}''"
  shows "LoadAndRenderTemplate ReadFile templatePath ticket = Some (Ticket_Summary ticket, None)"
  using assms
  by (simp add: LoadAndRenderTemplate_def parse_summary template_Execute_def lookupField_def
      createTemplateData_closed)

theorem C9_summary_marker_witness:
  "LoadAndRenderTemplate exampleFiles ''prompts/summary.md'' exampleTicket
     = Some (''Fix login bug'', None)"
proof -
  have "exampleFiles ''prompts/summary.md'' = Inr ''{{.Summary}}''"
    by (simp add: exampleFiles_def)
  from C9_summary_marker
    [where ReadFile = exampleFiles and templatePath = "''prompts/summary.md''"
      and ticket = exampleTicket, OF this]
  show ?thesis
    by (simp add: exampleTicket_def)
qed



text \<open>Three instances: a template that does not parse, one that refers to an unknown
  field, and one whose markup leaves an element open.\<close>

lemma data_example_summary: "Data_Summary (createTemplateData exampleTicket) = ''Fix login bug''"
  by (simp add: createTemplateData_closed exampleTicket_def)


text \<open>The flattened text of a document is empty or starts with the first letter of a
  block label, so it never starts with \<open><\<close>.\<close>

lemma head_append:
  "xs = [] \<or> hd xs \<in> S \<Longrightarrow> ys = [] \<or> hd ys \<in> S \<Longrightarrow> xs @ ys = [] \<or> hd (xs @ ys) \<in> S"
  by (cases xs) auto

lemma block_heads:
  "roleBlock doc = [] \<or> hd (roleBlock doc) \<in> set ''RTCIPF''"
  "taskBlock doc = [] \<or> hd (taskBlock doc) \<in> set ''RTCIPF''"
  "contextBlock doc = [] \<or> hd (contextBlock doc) \<in> set ''RTCIPF''"
  "instructionsBlock doc = [] \<or> hd (instructionsBlock doc) \<in> set ''RTCIPF''"
  "outputBlock doc = [] \<or> hd (outputBlock doc) \<in> set ''RTCIPF''"
  "styleBlock doc = [] \<or> hd (styleBlock doc) \<in> set ''RTCIPF''"
  by (simp_all add: roleBlock_def taskBlock_def contextBlock_def instructionsBlock_def
      outputBlock_def styleBlock_def)

lemma convert_head:
  "convertPOMLToPrompt doc = [] \<or> hd (convertPOMLToPrompt doc) \<in> set ''RTCIPF''"
  unfolding convert_blocks
  by (intro head_append block_heads)

lemma convert_not_markup: "convertPOMLToPrompt doc \<noteq> CHR ''<'' # rest"
  using convert_head [of doc] by auto

text \<open>
  Claim C2 says that the entry point renders a template of Structured kind with the
  Structured dialect. \<open>runJiraGenerator\<close> calls \<open>LoadAndRenderTemplate\<close> for every
  path: for the template \<open>prompts/implementation-plan.poml\<close> it returns the substituted
  markup itself as the prompt, which \<open>LoadAndRenderPOMLTemplate\<close> returns under no XML
  decoder.
\<close>

theorem C2_entry_point_renders_flat:
  "runJiraGenerator_prompt ReadFile templatePath ticket
     = LoadAndRenderTemplate ReadFile
         (if templatePath = [] then ''prompts/implementation-plan.md'' else templatePath) ticket
   \<and> runJiraGenerator_prompt exampleFiles ''prompts/implementation-plan.poml'' exampleTicket
     = Some (''<poml><task>Plan Fix login bug</task></poml>'', None)
   \<and> (\<forall>xml_Unmarshal.
         LoadAndRenderPOMLTemplate exampleFiles xml_Unmarshal ''prompts/implementation-plan.poml''
           exampleTicket
         \<noteq> Some (''<poml><task>Plan Fix login bug</task></poml>'', None))"
proof (intro conjI allI)
  show "runJiraGenerator_prompt ReadFile templatePath ticket
     = LoadAndRenderTemplate ReadFile
         (if templatePath = [] then ''prompts/implementation-plan.md'' else templatePath) ticket"
    by (simp add: runJiraGenerator_prompt_def GetDefaultTemplatePath_def)
  have read: "exampleFiles ''prompts/implementation-plan.poml''
      = Inr ''<poml><task>Plan {{.Summary}}</task></poml>''"
    by (simp add: exampleFiles_def)
  show "runJiraGenerator_prompt exampleFiles ''prompts/implementation-plan.poml'' exampleTicket
     = Some (''<poml><task>Plan Fix login bug</task></poml>'', None)"
    by (simp add: runJiraGenerator_prompt_def LoadAndRenderTemplate_def read parse_poml
        template_Execute_def lookupField_def data_example_summary)
  fix xml_Unmarshal :: "string \<Rightarrow> string + POMLDocument"
  show "LoadAndRenderPOMLTemplate exampleFiles xml_Unmarshal ''prompts/implementation-plan.poml''
           exampleTicket
         \<noteq> Some (''<poml><task>Plan Fix login bug</task></poml>'', None)"
    using convert_not_markup
    by (simp add: LoadAndRenderPOMLTemplate_def read parse_poml template_Execute_def
        lookupField_def data_example_summary split: sum.splits)
qed

end
